theory Spec2Isabelle
  imports Main
begin

section \<open>The layout directive of flex-layout (src/lib/flexbox/api/layout.ts)\<close>

text \<open>
  The directive maps the raw value of the \<open>fxLayout\<close> attribute (or of the breakpoint
  variant that is active) to four inline flexbox styles of the host element and
  announces the resolved direction on a replay-last-value channel.

  The embedding follows the TypeScript source function by function. JavaScript values
  are a datatype, property sets are association lists in the order of the object
  literal, the mutable fields of the directive are a record that every method takes
  and returns, and a call of a method that a value does not have is the error value
  \<open>TypeError\<close>.
\<close>

subsection \<open>JavaScript values\<close>

text \<open>
  The values that reach the directive: \<open>undefined\<close>, \<open>null\<close>, strings and, through an
  untyped template binding, non-string values, of which the booleans stand here.
  A string is the list of its code units, and a character of the model is a code unit
  from U+0000 to U+00FF: \<open>CHR 0x41\<close> is \<open>A\<close>, \<open>CHR 0xC9\<close> is the letter E with
  acute accent. The strings of the model are the strings over this range.
\<close>

datatype jsval = Undefined | Null | Boolean bool | Str string

datatype error = TypeError

text \<open>JavaScript's ToBoolean, as used by \<open>!!v\<close>, \<open>v ? a : b\<close>, \<open>v || w\<close> and \<open>if (v)\<close>.\<close>

fun truthy :: "jsval \<Rightarrow> bool" where
  "truthy Undefined = False"
| "truthy Null = False"
| "truthy (Boolean b) = b"
| "truthy (Str s) = (s \<noteq> [])"

text \<open>\<open>a || b\<close>: the left operand when it is truthy, the right one otherwise.\<close>

definition js_or :: "jsval \<Rightarrow> jsval \<Rightarrow> jsval" where
  "js_or a b = (if truthy a then a else b)"

subsection \<open>The string operations of the runtime\<close>

text \<open>
  \<open>String.prototype.toLowerCase\<close> on the code units U+0000 to U+00FF. The runtime maps
  every upper-case letter of this range to the code unit 0x20 above it and keeps every
  other code unit: the upper-case letters are \<open>A\<close> to \<open>Z\<close> (U+0041 to U+005A) and the
  accented capitals U+00C0 to U+00DE without the multiplication sign U+00D7. No code
  unit of the range has a lower-case form outside the range or of another length.
\<close>

definition upperLetters :: string where
  "upperLetters = ''ABCDEFGHIJKLMNOPQRSTUVWXYZ'' @
       [CHR 0xC0, CHR 0xC1, CHR 0xC2, CHR 0xC3, CHR 0xC4, CHR 0xC5,
        CHR 0xC6, CHR 0xC7, CHR 0xC8, CHR 0xC9, CHR 0xCA, CHR 0xCB,
        CHR 0xCC, CHR 0xCD, CHR 0xCE, CHR 0xCF, CHR 0xD0, CHR 0xD1,
        CHR 0xD2, CHR 0xD3, CHR 0xD4, CHR 0xD5, CHR 0xD6, CHR 0xD8,
        CHR 0xD9, CHR 0xDA, CHR 0xDB, CHR 0xDC, CHR 0xDD, CHR 0xDE]"

definition lowerLetters :: string where
  "lowerLetters = ''abcdefghijklmnopqrstuvwxyz'' @
       [CHR 0xE0, CHR 0xE1, CHR 0xE2, CHR 0xE3, CHR 0xE4, CHR 0xE5,
        CHR 0xE6, CHR 0xE7, CHR 0xE8, CHR 0xE9, CHR 0xEA, CHR 0xEB,
        CHR 0xEC, CHR 0xED, CHR 0xEE, CHR 0xEF, CHR 0xF0, CHR 0xF1,
        CHR 0xF2, CHR 0xF3, CHR 0xF4, CHR 0xF5, CHR 0xF6, CHR 0xF8,
        CHR 0xF9, CHR 0xFA, CHR 0xFB, CHR 0xFC, CHR 0xFD, CHR 0xFE]"

definition lowerChar :: "char \<Rightarrow> char" where
  "lowerChar c = (case map_of (zip upperLetters lowerLetters) c of None \<Rightarrow> c | Some l \<Rightarrow> l)"

definition toLowerCase :: "string \<Rightarrow> string" where
  "toLowerCase s = map lowerChar s"

text \<open>
  The method call \<open>v.toLowerCase()\<close> on an arbitrary value: only strings have the
  method, on any other value the call throws a TypeError.
\<close>

fun callToLowerCase :: "jsval \<Rightarrow> error + string" where
  "callToLowerCase (Str s) = Inr (toLowerCase s)"
| "callToLowerCase Undefined = Inl TypeError"
| "callToLowerCase Null = Inl TypeError"
| "callToLowerCase (Boolean b) = Inl TypeError"

text \<open>
  \<open>s.split(sep)\<close> for a separator of one character: the fields between the
  occurrences of the separator, empty fields included; the empty string has the one
  field \<open>""\<close>.
\<close>

fun js_split :: "char \<Rightarrow> string \<Rightarrow> string list" where
  "js_split sep [] = [[]]"
| "js_split sep (c # cs) =
     (if c = sep then [] # js_split sep cs
      else (case js_split sep cs of
              [] \<Rightarrow> [[c]]
            | f # fs \<Rightarrow> (c # f) # fs))"

text \<open>
  Array destructuring \<open>let [a, b] = xs\<close> reads \<open>xs[0]\<close> and \<open>xs[1]\<close>; an index
  beyond the end of the array yields \<open>undefined\<close>.
\<close>

definition elemAt :: "string list \<Rightarrow> nat \<Rightarrow> jsval" where
  "elemAt xs i = (if i < length xs then Str (xs ! i) else Undefined)"

subsection \<open>Normalizing the raw value\<close>

definition LAYOUT_VALUES :: "string list" where
  "LAYOUT_VALUES = [''row'', ''column'', ''row-reverse'', ''column-reverse'']"

text \<open>\<open>_validateWrapValue\<close> (lines 164 to 186).\<close>

definition validateWrapValue :: "jsval \<Rightarrow> error + jsval" where
  "validateWrapValue v =
     (if truthy v then
        (case callToLowerCase v of
           Inl e \<Rightarrow> Inl e
         | Inr s \<Rightarrow>
             if s = ''reverse'' \<or> s = ''wrap-reverse'' \<or> s = ''reverse-wrap''
               then Inr (Str ''wrap-reverse'')
             else if s = ''no'' \<or> s = ''none'' \<or> s = ''nowrap''
               then Inr (Str ''nowrap'')
             else Inr (Str ''wrap''))
      else Inr v)"

text \<open>
  Lines 152 and 153 of \<open>_validateValue\<close>: the value is lower-cased (the empty string
  stands in for a falsy value), split at the space character, and the first two
  fields are bound to \<open>direction\<close> and \<open>wrap\<close>.
\<close>

definition tokens :: "jsval \<Rightarrow> error + (jsval \<times> jsval)" where
  "tokens v =
     (case (if truthy v then callToLowerCase v else Inr []) of
        Inl e \<Rightarrow> Inl e
      | Inr lowered \<Rightarrow>
          (let fields = js_split (CHR '' '') lowered
           in Inr (elemAt fields 0, elemAt fields 1)))"

text \<open>
  \<open>LAYOUT_VALUES.find(x => x === direction)\<close>: the first element that is strictly
  equal to \<open>direction\<close>, or \<open>undefined\<close>.
\<close>

definition findLayoutValue :: "jsval \<Rightarrow> jsval" where
  "findLayoutValue direction =
     (case find (\<lambda>x. Str x = direction) LAYOUT_VALUES of
        None \<Rightarrow> Undefined
      | Some x \<Rightarrow> Str x)"

text \<open>\<open>_validateValue\<close> (lines 151 to 159).\<close>

definition validateValue :: "jsval \<Rightarrow> error + (jsval \<times> jsval)" where
  "validateValue v =
     (case tokens v of
        Inl e \<Rightarrow> Inl e
      | Inr (direction, wrap) \<Rightarrow>
          (let direction' =
                 (if \<not> truthy (findLayoutValue direction) then Str (LAYOUT_VALUES ! 0)
                  else direction)
           in case validateWrapValue wrap of
                Inl e \<Rightarrow> Inl e
              | Inr wrap' \<Rightarrow> Inr (direction', wrap')))"

subsection \<open>Building the styles\<close>

text \<open>
  A property set is the list of its keys and values in the order of the object
  literal. \<open>_buildCSS\<close> (lines 138 to 145); its parameter \<open>wrap\<close> has the default
  \<open>null\<close>, which JavaScript substitutes for the argument \<open>undefined\<close>.
\<close>

type_synonym style = "(string \<times> jsval) list"

definition buildCSS :: "jsval \<Rightarrow> jsval \<Rightarrow> style" where
  "buildCSS direction wrap =
     (let wrap' = (if wrap = Undefined then Null else wrap)
      in [(''display'', Str ''flex''),
          (''box-sizing'', Str ''border-box''),
          (''flex-direction'', direction),
          (''flex-wrap'', if truthy wrap' then wrap' else Null)])"

subsection \<open>The directive and its collaborators\<close>

text \<open>
  Modelled from the spec: the channel \<open>BehaviorSubject\<close> of the rxjs library, which is
  not part of the sources. It is a single-slot channel that replays its latest value.
  The field \<open>current\<close> is the value held, the field \<open>pushed\<close> logs the calls of
  \<open>next\<close>.
\<close>

record behaviorSubject =
  current :: jsval
  pushed :: "jsval list"

text \<open>
  Modelled from the spec: \<open>new BehaviorSubject(v)\<close>, missing with the rxjs library;
  the channel is created holding \<open>v\<close>, and nothing has been pushed.
\<close>

definition newBehaviorSubject :: "jsval \<Rightarrow> behaviorSubject" where
  "newBehaviorSubject v = \<lparr>current = v, pushed = []\<rparr>"

text \<open>
  Modelled from the spec: \<open>subject.next(v)\<close>, missing with the rxjs library; the
  value held is replaced by \<open>v\<close>, which is delivered to the subscribers.
\<close>

definition next_value :: "jsval \<Rightarrow> behaviorSubject \<Rightarrow> behaviorSubject" where
  "next_value v subj = subj\<lparr>current := v, pushed := pushed subj @ [v]\<rparr>"

text \<open>
  Modelled from the spec: what a new subscriber of the channel receives at once,
  missing with the rxjs library; it is the value held at that moment.
\<close>

definition subscribe :: "behaviorSubject \<Rightarrow> jsval" where
  "subscribe subj = current subj"

text \<open>
  Modelled from the spec: the media-query activation object of
  \<open>../../media-query\<close>, which is not part of the sources. The directive reads one
  property of it, the value of the input that the active breakpoint selects.
\<close>

record responsiveActivation =
  activatedInput :: jsval

text \<open>
  The fields of the directive: the input cache and the activation, both kept by the
  base class \<open>BaseFxDirective\<close>, the announcer, and the property sets applied to the
  host element so far, in the order of their application.
\<close>

record directive =
  inputMap :: "string \<rightharpoonup> jsval"
  mqActivation :: "responsiveActivation option"
  announcer :: behaviorSubject
  hostStyles :: "style list"

text \<open>
  Modelled from the spec: \<open>_cacheInput\<close> of the base class \<open>BaseFxDirective\<close>
  (\<open>./base\<close>), which is not part of the sources; it caches the value of an input
  under the key of the input.
\<close>

definition cacheInput :: "string \<Rightarrow> jsval \<Rightarrow> directive \<Rightarrow> directive" where
  "cacheInput key v st = st\<lparr>inputMap := (inputMap st)(key \<mapsto> v)\<rparr>"

text \<open>
  Modelled from the spec: \<open>_queryInput\<close> of the base class \<open>BaseFxDirective\<close>, which
  is not part of the sources; it returns the value cached under the key, \<open>undefined\<close>
  for a key that was never set.
\<close>

definition queryInput :: "directive \<Rightarrow> string \<Rightarrow> jsval" where
  "queryInput st key = (case inputMap st key of None \<Rightarrow> Undefined | Some v \<Rightarrow> v)"

text \<open>
  Modelled from the spec: \<open>_applyStyleToElement\<close> of the base class
  \<open>BaseFxDirective\<close>, which is not part of the sources; it applies a property set to
  the host element and does not fail.
\<close>

definition applyStyleToElement :: "style \<Rightarrow> directive \<Rightarrow> directive" where
  "applyStyleToElement css st = st\<lparr>hostStyles := hostStyles st @ [css]\<rparr>"

text \<open>The setter of the input \<open>fxLayout\<close> (line 60).\<close>

definition layout :: "jsval \<Rightarrow> directive \<Rightarrow> directive" where
  "layout v st = cacheInput ''layout'' v st"

text \<open>
  The constructor (lines 74 to 78). The constructor of the base class, which is not
  part of the sources, is taken to start with an empty input cache and without an
  activation; nothing has been applied to the host yet.
\<close>

definition constructor :: directive where
  "constructor =
     \<lparr>inputMap = Map.empty,
      mqActivation = None,
      announcer = newBehaviorSubject (Str ''row''),
      hostStyles = []\<rparr>"

text \<open>
  Lines 114 to 117 of \<open>_updateWithDirection\<close>: the raw value that is handed to
  \<open>_validateValue\<close>. The optional parameter is \<open>undefined\<close> when the caller omits it.
\<close>

definition baseValue :: "directive \<Rightarrow> jsval \<Rightarrow> jsval" where
  "baseValue st arg = js_or (js_or arg (queryInput st ''layout'')) (Str ''row'')"

definition resolveValue :: "directive \<Rightarrow> jsval \<Rightarrow> jsval" where
  "resolveValue st arg =
     (case mqActivation st of
        Some activation \<Rightarrow> activatedInput activation
      | None \<Rightarrow> baseValue st arg)"

text \<open>\<open>_updateWithDirection\<close> (lines 113 to 123).\<close>

definition updateWithDirection :: "directive \<Rightarrow> jsval \<Rightarrow> error + directive" where
  "updateWithDirection st arg =
     (case validateValue (resolveValue st arg) of
        Inl e \<Rightarrow> Inl e
      | Inr (direction, wrap) \<Rightarrow>
          (let st1 = applyStyleToElement (buildCSS direction wrap) st
           in Inr (st1\<lparr>announcer := next_value direction (announcer st1)\<rparr>)))"

subsection \<open>The words of the specification, for comparison\<close>

text \<open>
  The specification describes the tokenizer as "lower-case it, split on whitespace
  into at most two tokens". \<open>whitespaceTokens\<close> follows these words: it is \<open>tokens\<close>
  with every whitespace character (space, tab, line feed, vertical tab, form feed,
  carriage return) as a separator. It is compared with \<open>tokens\<close> below.
\<close>

definition isWhitespace :: "char \<Rightarrow> bool" where
  "isWhitespace c =
     (c \<in> set [CHR '' '', CHR 0x09, CHR 0x0A, CHR 0x0B, CHR 0x0C, CHR 0x0D])"

fun splitWhitespace :: "string \<Rightarrow> string list" where
  "splitWhitespace [] = [[]]"
| "splitWhitespace (c # cs) =
     (if isWhitespace c then [] # splitWhitespace cs
      else (case splitWhitespace cs of
              [] \<Rightarrow> [[c]]
            | f # fs \<Rightarrow> (c # f) # fs))"

definition whitespaceTokens :: "jsval \<Rightarrow> error + (jsval \<times> jsval)" where
  "whitespaceTokens v =
     (case (if truthy v then callToLowerCase v else Inr []) of
        Inl e \<Rightarrow> Inl e
      | Inr lowered \<Rightarrow>
          (let fields = splitWhitespace lowered
           in Inr (elemAt fields 0, elemAt fields 1)))"

text \<open>
  The string rebuilt from a result \<open>[d, w]\<close> of the normalizer: \<open>d\<close> alone when \<open>w\<close>
  is unset (\<open>undefined\<close>, not a string), otherwise \<open>d\<close>, a single space and \<open>w\<close>.
\<close>

definition rebuilt :: "string \<Rightarrow> jsval \<Rightarrow> string" where
  "rebuilt d w = (case w of Str ws \<Rightarrow> d @ '' '' @ ws | _ \<Rightarrow> d)"

section \<open>Lemmas about the string operations\<close>

text \<open>The lower-case forms of the letters, the space, the hyphen and the tab, and of one
  accented capital, read off the table once.\<close>

lemma lowerChar_eval:
  "lowerChar CHR ''a'' = CHR ''a''"
  "lowerChar CHR ''b'' = CHR ''b''"
  "lowerChar CHR ''c'' = CHR ''c''"
  "lowerChar CHR ''d'' = CHR ''d''"
  "lowerChar CHR ''e'' = CHR ''e''"
  "lowerChar CHR ''f'' = CHR ''f''"
  "lowerChar CHR ''g'' = CHR ''g''"
  "lowerChar CHR ''h'' = CHR ''h''"
  "lowerChar CHR ''i'' = CHR ''i''"
  "lowerChar CHR ''j'' = CHR ''j''"
  "lowerChar CHR ''k'' = CHR ''k''"
  "lowerChar CHR ''l'' = CHR ''l''"
  "lowerChar CHR ''m'' = CHR ''m''"
  "lowerChar CHR ''n'' = CHR ''n''"
  "lowerChar CHR ''o'' = CHR ''o''"
  "lowerChar CHR ''p'' = CHR ''p''"
  "lowerChar CHR ''q'' = CHR ''q''"
  "lowerChar CHR ''r'' = CHR ''r''"
  "lowerChar CHR ''s'' = CHR ''s''"
  "lowerChar CHR ''t'' = CHR ''t''"
  "lowerChar CHR ''u'' = CHR ''u''"
  "lowerChar CHR ''v'' = CHR ''v''"
  "lowerChar CHR ''w'' = CHR ''w''"
  "lowerChar CHR ''x'' = CHR ''x''"
  "lowerChar CHR ''y'' = CHR ''y''"
  "lowerChar CHR ''z'' = CHR ''z''"
  "lowerChar CHR ''A'' = CHR ''a''"
  "lowerChar CHR ''B'' = CHR ''b''"
  "lowerChar CHR ''C'' = CHR ''c''"
  "lowerChar CHR ''D'' = CHR ''d''"
  "lowerChar CHR ''E'' = CHR ''e''"
  "lowerChar CHR ''F'' = CHR ''f''"
  "lowerChar CHR ''G'' = CHR ''g''"
  "lowerChar CHR ''H'' = CHR ''h''"
  "lowerChar CHR ''I'' = CHR ''i''"
  "lowerChar CHR ''J'' = CHR ''j''"
  "lowerChar CHR ''K'' = CHR ''k''"
  "lowerChar CHR ''L'' = CHR ''l''"
  "lowerChar CHR ''M'' = CHR ''m''"
  "lowerChar CHR ''N'' = CHR ''n''"
  "lowerChar CHR ''O'' = CHR ''o''"
  "lowerChar CHR ''P'' = CHR ''p''"
  "lowerChar CHR ''Q'' = CHR ''q''"
  "lowerChar CHR ''R'' = CHR ''r''"
  "lowerChar CHR ''S'' = CHR ''s''"
  "lowerChar CHR ''T'' = CHR ''t''"
  "lowerChar CHR ''U'' = CHR ''u''"
  "lowerChar CHR ''V'' = CHR ''v''"
  "lowerChar CHR ''W'' = CHR ''w''"
  "lowerChar CHR ''X'' = CHR ''x''"
  "lowerChar CHR ''Y'' = CHR ''y''"
  "lowerChar CHR ''Z'' = CHR ''z''"
  "lowerChar CHR '' '' = CHR '' ''"
  "lowerChar CHR ''-'' = CHR ''-''"
  "lowerChar (CHR 0x09) = CHR 0x09"
  "lowerChar (CHR 0xC9) = CHR 0xE9"
  by (simp_all add: lowerChar_def upperLetters_def lowerLetters_def)

lemmas lower_eval = toLowerCase_def lowerChar_eval

lemma lowerChar_space: "lowerChar c = CHR '' '' \<longleftrightarrow> c = CHR '' ''"
  by (simp add: lowerChar_def upperLetters_def lowerLetters_def)

lemma toLowerCase_Nil: "toLowerCase s = [] \<longleftrightarrow> s = []"
  by (simp add: toLowerCase_def)

lemma toLowerCase_takeWhile:
  "takeWhile (\<lambda>c. c \<noteq> CHR '' '') (toLowerCase s) =
     toLowerCase (takeWhile (\<lambda>c. c \<noteq> CHR '' '') s)"
  by (induction s) (simp_all add: toLowerCase_def lowerChar_space)

lemma toLowerCase_dropWhile:
  "dropWhile (\<lambda>c. c \<noteq> CHR '' '') (toLowerCase s) =
     toLowerCase (dropWhile (\<lambda>c. c \<noteq> CHR '' '') s)"
  by (induction s) (simp_all add: toLowerCase_def lowerChar_space)

lemma toLowerCase_space: "CHR '' '' \<in> set (toLowerCase s) \<longleftrightarrow> CHR '' '' \<in> set s"
proof -
  have "CHR '' '' \<in> lowerChar ` set s \<longleftrightarrow> (\<exists>c \<in> set s. lowerChar c = CHR '' '')"
    by (metis (no_types) image_iff)
  then show ?thesis
    by (simp add: toLowerCase_def lowerChar_space)
qed

text \<open>\<open>split\<close> never returns the empty array, so \<open>direction\<close> is always a string.\<close>

lemma js_split_not_Nil: "js_split sep s \<noteq> []"
  by (induction s) (auto split: list.splits)

text \<open>
  The first field is the text before the first separator; the second field exists
  when there is a separator and is the text between the first and the second one.
\<close>

lemma elemAt_split_0: "elemAt (js_split sep s) 0 = Str (takeWhile (\<lambda>c. c \<noteq> sep) s)"
  by (induction s) (auto simp: elemAt_def split: list.splits)

lemma elemAt_split_1:
  "elemAt (js_split sep s) (Suc 0) =
     (if sep \<in> set s
      then Str (takeWhile (\<lambda>c. c \<noteq> sep) (tl (dropWhile (\<lambda>c. c \<noteq> sep) s)))
      else Undefined)"
proof (induction s)
  case Nil
  show ?case by (simp add: elemAt_def)
next
  case (Cons c cs)
  show ?case
  proof (cases "c = sep")
    case True
    have "elemAt ([] # js_split sep cs) (Suc 0) = elemAt (js_split sep cs) 0"
      by (simp add: elemAt_def)
    with True show ?thesis by (simp add: elemAt_split_0)
  next
    case False
    obtain f fs where fs: "js_split sep cs = f # fs"
      using js_split_not_Nil [of sep cs] by (cases "js_split sep cs") auto
    have "elemAt ((c # f) # fs) (Suc 0) = elemAt (f # fs) (Suc 0)"
      by (simp add: elemAt_def)
    with False fs Cons show ?thesis by simp
  qed
qed

section \<open>Lemmas about the normalizer\<close>

lemma findLayoutValue_Str: "truthy (findLayoutValue (Str d)) \<longleftrightarrow> d \<in> set LAYOUT_VALUES"
  by (auto simp add: findLayoutValue_def LAYOUT_VALUES_def)

lemma LAYOUT_VALUES_0: "LAYOUT_VALUES ! 0 = ''row''"
  by (simp add: LAYOUT_VALUES_def)

lemma validateWrapValue_falsy: "\<not> truthy v \<Longrightarrow> validateWrapValue v = Inr v"
  by (simp add: validateWrapValue_def)

lemma validateWrapValue_Str:
  "validateWrapValue (Str s) =
     Inr (Str (if s = [] then []
               else if toLowerCase s \<in> {''reverse'', ''wrap-reverse'', ''reverse-wrap''}
                 then ''wrap-reverse''
               else if toLowerCase s \<in> {''no'', ''none'', ''nowrap''} then ''nowrap''
               else ''wrap''))"
  by (simp add: validateWrapValue_def)

lemma validateWrapValue_range:
  "\<exists>w. validateWrapValue (Str s) = Inr (Str w)
       \<and> w \<in> {[], ''wrap-reverse'', ''nowrap'', ''wrap''}"
  by (simp add: validateWrapValue_Str)

lemma tokens_falsy: "\<not> truthy v \<Longrightarrow> tokens v = Inr (Str [], Undefined)"
  by (simp add: tokens_def elemAt_def)

lemma tokens_Str:
  "tokens (Str s) =
     Inr (Str (toLowerCase (takeWhile (\<lambda>c. c \<noteq> CHR '' '') s)),
          if CHR '' '' \<in> set s
          then Str (toLowerCase
                 (takeWhile (\<lambda>c. c \<noteq> CHR '' '') (tl (dropWhile (\<lambda>c. c \<noteq> CHR '' '') s))))
          else Undefined)"
proof (cases "s = []")
  case True
  then show ?thesis by (simp add: tokens_def elemAt_def toLowerCase_def)
next
  case False
  have tl: "tl (toLowerCase xs) = toLowerCase (tl xs)" for xs
    by (simp add: toLowerCase_def map_tl)
  from False have "tokens (Str s) =
      Inr (elemAt (js_split (CHR '' '') (toLowerCase s)) 0,
           elemAt (js_split (CHR '' '') (toLowerCase s)) (Suc 0))"
    by (simp add: tokens_def Let_def)
  then show ?thesis
    by (simp add: elemAt_split_0 elemAt_split_1 toLowerCase_space toLowerCase_takeWhile
        toLowerCase_dropWhile tl)
qed

lemma validateValue_falsy: "\<not> truthy v \<Longrightarrow> validateValue v = Inr (Str ''row'', Undefined)"
  by (simp add: validateValue_def tokens_falsy findLayoutValue_Str LAYOUT_VALUES_0
      validateWrapValue_falsy) (simp add: LAYOUT_VALUES_def)

text \<open>
  On a string the normalizer returns: as direction the lower-cased first field when it
  is one of \<open>LAYOUT_VALUES\<close> and \<open>'row'\<close> otherwise, as wrap one of five values.
\<close>

lemma validateValue_Str:
  "(\<exists>w. validateValue (Str s) =
        Inr (Str (let t = toLowerCase (takeWhile (\<lambda>c. c \<noteq> CHR '' '') s)
                  in if t \<in> set LAYOUT_VALUES then t else ''row''), Str w)
      \<and> w \<in> {[], ''wrap-reverse'', ''nowrap'', ''wrap''})
   \<or> validateValue (Str s) =
        Inr (Str (let t = toLowerCase (takeWhile (\<lambda>c. c \<noteq> CHR '' '') s)
                  in if t \<in> set LAYOUT_VALUES then t else ''row''), Undefined)"
proof (cases "CHR '' '' \<in> set s")
  case True
  define r where
    "r = toLowerCase (takeWhile (\<lambda>c. c \<noteq> CHR '' '') (tl (dropWhile (\<lambda>c. c \<noteq> CHR '' '') s)))"
  obtain w where w: "validateWrapValue (Str r) = Inr (Str w)"
    "w \<in> {[], ''wrap-reverse'', ''nowrap'', ''wrap''}"
    using validateWrapValue_range [of r] by blast
  from True have "tokens (Str s) =
      Inr (Str (toLowerCase (takeWhile (\<lambda>c. c \<noteq> CHR '' '') s)), Str r)"
    by (simp add: tokens_Str r_def)
  with w show ?thesis
    by (simp add: validateValue_def findLayoutValue_Str LAYOUT_VALUES_0 Let_def)
next
  case False
  then have "tokens (Str s) =
      Inr (Str (toLowerCase (takeWhile (\<lambda>c. c \<noteq> CHR '' '') s)), Undefined)"
    by (simp add: tokens_Str)
  then show ?thesis
    by (simp add: validateValue_def findLayoutValue_Str LAYOUT_VALUES_0 Let_def
        validateWrapValue_falsy)
qed

lemmas validate_eval = validateValue_def tokens_def validateWrapValue_def findLayoutValue_def
  elemAt_def LAYOUT_VALUES_def lower_eval

lemma takeWhile_all:
  "CHR '' '' \<notin> set t \<Longrightarrow> takeWhile (\<lambda>c. c \<noteq> CHR '' '') t = t"
  by (induction t) auto

lemma takeWhile_no_space:
  "CHR '' '' \<notin> set t \<Longrightarrow> takeWhile (\<lambda>c. c \<noteq> CHR '' '') (t @ CHR '' '' # r) = t"
  by (induction t) auto

lemma dropWhile_no_space:
  "CHR '' '' \<notin> set t \<Longrightarrow>
   dropWhile (\<lambda>c. c \<noteq> CHR '' '') (t @ CHR '' '' # r) = CHR '' '' # r"
  by (induction t) auto

text \<open>Every result of the normalizer on a string is reproduced from its rebuilt string.\<close>

lemma validateValue_fixpoint:
  "d \<in> set LAYOUT_VALUES \<Longrightarrow>
   w \<in> {Undefined, Str [], Str ''wrap-reverse'', Str ''nowrap'', Str ''wrap''} \<Longrightarrow>
   validateValue (Str (rebuilt d w)) = Inr (Str d, w)"
  by (auto simp add: rebuilt_def validate_eval)

section \<open>Lemmas about the style builder and the update\<close>

lemma buildCSS_eq:
  "buildCSS direction wrap =
     [(''display'', Str ''flex''),
      (''box-sizing'', Str ''border-box''),
      (''flex-direction'', direction),
      (''flex-wrap'', if truthy wrap then wrap else Null)]"
  by (simp add: buildCSS_def)

lemma updateWithDirection_eq:
  "validateValue (resolveValue st arg) = Inr (d, w) \<Longrightarrow>
   updateWithDirection st arg =
     Inr (st\<lparr>hostStyles := hostStyles st @ [buildCSS d w],
             announcer := next_value d (announcer st)\<rparr>)"
  by (simp add: updateWithDirection_def applyStyleToElement_def Let_def)

text \<open>
  On a raw value that is a string or is falsy the update returns and pushes one of
  the four directions; on the remaining value, \<open>true\<close>, the call of \<open>toLowerCase\<close>
  on line 152 throws before line 121.
\<close>

lemma updateWithDirection_returns:
  assumes "(\<exists>s. resolveValue st arg = Str s) \<or> \<not> truthy (resolveValue st arg)"
  shows "\<exists>d st'. d \<in> set LAYOUT_VALUES
     \<and> updateWithDirection st arg = Inr st'
     \<and> pushed (announcer st') = pushed (announcer st) @ [Str d]
     \<and> subscribe (announcer st') = Str d"
proof -
  have "\<exists>d w. d \<in> set LAYOUT_VALUES \<and> validateValue (resolveValue st arg) = Inr (Str d, w)"
    using assms
  proof
    assume "\<exists>s. resolveValue st arg = Str s"
    then obtain s where s: "resolveValue st arg = Str s" ..
    define d where "d = (let t = toLowerCase (takeWhile (\<lambda>c. c \<noteq> CHR '' '') s)
               in if t \<in> set LAYOUT_VALUES then t else ''row'')"
    have "d \<in> set LAYOUT_VALUES"
      by (simp add: d_def Let_def) (simp add: LAYOUT_VALUES_def)
    moreover have "\<exists>w. validateValue (Str s) = Inr (Str d, w)"
      using validateValue_Str [of s] unfolding d_def by blast
    ultimately show ?thesis using s by auto
  next
    assume "\<not> truthy (resolveValue st arg)"
    then have "validateValue (resolveValue st arg) = Inr (Str ''row'', Undefined)"
      by (rule validateValue_falsy)
    moreover have "''row'' \<in> set LAYOUT_VALUES"
      by (simp add: LAYOUT_VALUES_def)
    ultimately show ?thesis by blast
  qed
  then obtain d w where d: "d \<in> set LAYOUT_VALUES"
    and v: "validateValue (resolveValue st arg) = Inr (Str d, w)"
    by blast
  from updateWithDirection_eq [OF v] d show ?thesis
    by (simp add: next_value_def subscribe_def)
qed

lemma updateWithDirection_TypeError:
  "resolveValue st arg = Boolean True \<Longrightarrow> updateWithDirection st arg = Inl TypeError"
  by (simp add: updateWithDirection_def validateValue_def tokens_def)

lemma string_or_falsy_cases:
  "(\<exists>s. v = Str s) \<or> \<not> truthy v \<or> v = Boolean True"
  by (cases v) auto

section \<open>Properties\<close>

subsection \<open>The direction returned by the normalizer\<close>

text \<open>
  C1. For every input string the normalizer returns without an error. The direction
  it returns is the first token in lower case when that is one of \<open>'row'\<close>,
  \<open>'column'\<close>, \<open>'row-reverse'\<close>, \<open>'column-reverse'\<close> (so a recognized token comes
  back unchanged up to letter case), and \<open>'row'\<close> for every other first token, the
  empty one included. The first token is the text before the first space.
\<close>

theorem validateValue_direction:
  "\<exists>w. validateValue (Str s) =
     Inr (Str (let t = toLowerCase (takeWhile (\<lambda>c. c \<noteq> CHR '' '') s)
               in if t \<in> set LAYOUT_VALUES then t else ''row''), w)"
  using validateValue_Str [of s] by blast

theorem validateValue_direction_witness:
  "(\<exists>w. validateValue (Str ''Column-REVERSE wrap'') = Inr (Str ''column-reverse'', w))
   \<and> (\<exists>w. validateValue (Str ''diagonal'') = Inr (Str ''row'', w))
   \<and> (\<exists>w. validateValue (Str []) = Inr (Str ''row'', w))"
  using validateValue_direction [of "''Column-REVERSE wrap''"]
    validateValue_direction [of "''diagonal''"]
    validateValue_direction [of "[]"]
  by (simp add: lower_eval LAYOUT_VALUES_def)

subsection \<open>The wrap mapping\<close>

text \<open>
  C2 as stated fails on a token with upper-case letters: \<open>'NO'\<close> is not empty and is
  none of the six listed strings, yet it maps to \<open>'nowrap'\<close> and not to \<open>'wrap'\<close>,
  since \<open>_validateWrapValue\<close> compares the lower-cased token.
\<close>

theorem validateWrapValue_upper_counterexample:
  "''NO'' \<noteq> []
   \<and> ''NO'' \<notin> {''reverse'', ''wrap-reverse'', ''reverse-wrap''}
   \<and> ''NO'' \<notin> {''no'', ''none'', ''nowrap''}
   \<and> validateWrapValue (Str ''NO'') = Inr (Str ''nowrap'')
   \<and> validateWrapValue (Str ''NO'') \<noteq> Inr (Str ''wrap'')"
  by (simp add: validateWrapValue_def lower_eval)

text \<open>
  C2, amended. The wrap mapping returns without an error on every string and on every
  falsy value, and it is decided by the lower-cased token: a string whose lower-case
  form is \<open>reverse\<close>, \<open>wrap-reverse\<close> or \<open>reverse-wrap\<close> maps to \<open>'wrap-reverse'\<close>;
  one whose lower-case form is \<open>no\<close>, \<open>none\<close> or \<open>nowrap\<close> maps to \<open>'nowrap'\<close>;
  every other non-empty string maps to \<open>'wrap'\<close>; a falsy value is returned
  unchanged.
\<close>

theorem validateWrapValue_mapping:
  "(toLowerCase s \<in> {''reverse'', ''wrap-reverse'', ''reverse-wrap''}
      \<longrightarrow> validateWrapValue (Str s) = Inr (Str ''wrap-reverse''))
   \<and> (toLowerCase s \<in> {''no'', ''none'', ''nowrap''}
      \<longrightarrow> validateWrapValue (Str s) = Inr (Str ''nowrap''))
   \<and> (s \<noteq> [] \<and> toLowerCase s \<notin> {''reverse'', ''wrap-reverse'', ''reverse-wrap''}
        \<and> toLowerCase s \<notin> {''no'', ''none'', ''nowrap''}
      \<longrightarrow> validateWrapValue (Str s) = Inr (Str ''wrap''))
   \<and> (\<not> truthy v \<longrightarrow> validateWrapValue v = Inr v)"
proof -
  have "toLowerCase s \<noteq> [] \<Longrightarrow> s \<noteq> []"
    by (simp add: toLowerCase_Nil)
  then show ?thesis
    by (auto simp add: validateWrapValue_Str validateWrapValue_falsy)
qed

theorem validateWrapValue_mapping_witness:
  "validateWrapValue (Str ''Reverse-Wrap'') = Inr (Str ''wrap-reverse'')
   \<and> validateWrapValue (Str ''NONE'') = Inr (Str ''nowrap'')
   \<and> validateWrapValue (Str ''banana'') = Inr (Str ''wrap'')
   \<and> validateWrapValue Undefined = Inr Undefined
   \<and> validateWrapValue (Str []) = Inr (Str [])"
  using validateWrapValue_mapping [of "''Reverse-Wrap''" Undefined]
    validateWrapValue_mapping [of "''NONE''" "Str []"]
    validateWrapValue_mapping [of "''banana''" Null]
  by (simp add: lower_eval)

subsection \<open>The tokenizer\<close>

text \<open>
  C8 as stated fails on a string with a tab: the normalizer splits at the space
  character only, so \<open>column<TAB>wrap\<close> is one field, where a split on whitespace
  yields the two tokens \<open>column\<close> and \<open>wrap\<close>. The normalizer then returns the
  direction \<open>'row'\<close> and no wrap.
\<close>

theorem tokens_tab_counterexample:
  "tokens (Str (''column'' @ [CHR 0x09] @ ''wrap''))
     = Inr (Str (''column'' @ [CHR 0x09] @ ''wrap''), Undefined)
   \<and> whitespaceTokens (Str (''column'' @ [CHR 0x09] @ ''wrap''))
     = Inr (Str ''column'', Str ''wrap'')
   \<and> tokens (Str (''column'' @ [CHR 0x09] @ ''wrap''))
     \<noteq> whitespaceTokens (Str (''column'' @ [CHR 0x09] @ ''wrap''))
   \<and> validateValue (Str (''column'' @ [CHR 0x09] @ ''wrap'')) = Inr (Str ''row'', Undefined)"
  by (simp add: validate_eval whitespaceTokens_def isWhitespace_def)

text \<open>
  C8, amended. For every raw input string (possibly empty or undefined) the
  normalizer lower-cases it, splits it at each space character and takes the first
  two fields as direction and wrap: a string without a space gives its lower-case
  form and no wrap; the text \<open>t1\<close> before the first space and the text \<open>t2\<close> up to
  the second space (or to the end) give the lower-case forms of \<open>t1\<close> and \<open>t2\<close>,
  whatever follows; \<open>undefined\<close> gives the empty direction and no wrap.
\<close>

theorem tokens_space_fields:
  assumes "CHR '' '' \<notin> set t1" and "CHR '' '' \<notin> set t2"
  shows "tokens (Str t1) = Inr (Str (toLowerCase t1), Undefined)
    \<and> tokens (Str (t1 @ '' '' @ t2)) = Inr (Str (toLowerCase t1), Str (toLowerCase t2))
    \<and> tokens (Str (t1 @ '' '' @ t2 @ '' '' @ r))
        = Inr (Str (toLowerCase t1), Str (toLowerCase t2))
    \<and> tokens Undefined = Inr (Str [], Undefined)"
  using assms
  by (simp add: tokens_Str tokens_falsy takeWhile_no_space dropWhile_no_space takeWhile_all)

theorem tokens_space_fields_witness:
  "tokens (Str ''ROW'') = Inr (Str ''row'', Undefined)
   \<and> tokens (Str ''Column Wrap'') = Inr (Str ''column'', Str ''wrap'')
   \<and> tokens (Str ''Column Wrap extra words'') = Inr (Str ''column'', Str ''wrap'')
   \<and> tokens (Str ''row  wrap'') = Inr (Str ''row'', Str [])
   \<and> tokens (Str (''row '' @ [CHR 0xC9])) = Inr (Str ''row'', Str [CHR 0xE9])
   \<and> tokens Undefined = Inr (Str [], Undefined)"
  using tokens_space_fields [of "''ROW''" "''x''" "[]"]
    tokens_space_fields [of "''Column''" "''Wrap''" "''extra words''"]
    tokens_space_fields [of "''row''" "[]" "''wrap''"]
    tokens_space_fields [of "''row''" "[CHR 0xC9]" "[]"]
  by (simp add: lower_eval)

subsection \<open>Idempotence of the normalizer\<close>

text \<open>
  C9. For every input string the normalizer returns a pair \<open>[d, w]\<close>, and applied to
  the string rebuilt from that pair it returns the same pair; the wrap mapping
  returns its own results unchanged. When also the empty wrap \<open>''\<close> is rebuilt as
  \<open>d\<close> alone, the direction and every non-empty wrap are reproduced and the empty
  wrap comes back as \<open>undefined\<close>.
\<close>

theorem validateValue_idempotent:
  "(\<exists>d w. validateValue (Str s) = Inr (Str d, w)
          \<and> validateValue (Str (rebuilt d w)) = Inr (Str d, w)
          \<and> validateValue (Str (if truthy w then rebuilt d w else d))
              = Inr (Str d, if truthy w then w else Undefined))
   \<and> (\<exists>w. validateWrapValue (Str s) = Inr w \<and> validateWrapValue w = Inr w)"
proof
  define d where "d = (let t = toLowerCase (takeWhile (\<lambda>c. c \<noteq> CHR '' '') s)
               in if t \<in> set LAYOUT_VALUES then t else ''row'')"
  have d: "d \<in> set LAYOUT_VALUES"
    by (simp add: d_def Let_def) (simp add: LAYOUT_VALUES_def)
  obtain w where w: "validateValue (Str s) = Inr (Str d, w)"
    "w \<in> {Undefined, Str [], Str ''wrap-reverse'', Str ''nowrap'', Str ''wrap''}"
    using validateValue_Str [of s] unfolding d_def by auto
  have undef: "Undefined \<in> {Undefined, Str [], Str ''wrap-reverse'', Str ''nowrap'', Str ''wrap''}"
    by simp
  have "validateValue (Str d) = Inr (Str d, Undefined)"
    using validateValue_fixpoint [OF d undef] by (simp add: rebuilt_def)
  with validateValue_fixpoint [OF d w(2)]
  have "validateValue (Str (if truthy w then rebuilt d w else d))
      = Inr (Str d, if truthy w then w else Undefined)"
    by simp
  with validateValue_fixpoint [OF d w(2)] w(1)
  show "\<exists>d w. validateValue (Str s) = Inr (Str d, w)
          \<and> validateValue (Str (rebuilt d w)) = Inr (Str d, w)
          \<and> validateValue (Str (if truthy w then rebuilt d w else d))
              = Inr (Str d, if truthy w then w else Undefined)"
    by blast
next
  obtain w where w: "validateWrapValue (Str s) = Inr (Str w)"
    "w \<in> {[], ''wrap-reverse'', ''nowrap'', ''wrap''}"
    using validateWrapValue_range [of s] by blast
  from w(2) have "validateWrapValue (Str w) = Inr (Str w)"
    by (auto simp add: validateWrapValue_def lower_eval)
  with w(1) show "\<exists>w. validateWrapValue (Str s) = Inr w \<and> validateWrapValue w = Inr w"
    by blast
qed

subsection \<open>The style builder\<close>

text \<open>
  C4. For every direction and wrap the style builder returns exactly the property set
  \<open>display: flex\<close>, \<open>box-sizing: border-box\<close>, \<open>flex-direction: direction\<close> and
  \<open>flex-wrap\<close>: wrap when wrap is truthy, \<open>null\<close> otherwise; as a function of its two
  arguments it is deterministic and has no effect. For the empty raw input the
  normalizer's result gives, and the update applies to the host, the style with
  \<open>flex-direction: row\<close> and \<open>flex-wrap: null\<close>.
\<close>

theorem buildCSS_exact:
  "buildCSS direction wrap =
     [(''display'', Str ''flex''),
      (''box-sizing'', Str ''border-box''),
      (''flex-direction'', direction),
      (''flex-wrap'', if truthy wrap then wrap else Null)]
   \<and> (\<exists>d w. validateValue (Str []) = Inr (d, w)
         \<and> buildCSS d w =
             [(''display'', Str ''flex''),
              (''box-sizing'', Str ''border-box''),
              (''flex-direction'', Str ''row''),
              (''flex-wrap'', Null)])
   \<and> (\<exists>st. updateWithDirection (layout (Str []) constructor) Undefined = Inr st
         \<and> hostStyles st =
             [[(''display'', Str ''flex''),
               (''box-sizing'', Str ''border-box''),
               (''flex-direction'', Str ''row''),
               (''flex-wrap'', Null)]])"
proof -
  have v: "validateValue (Str []) = Inr (Str ''row'', Undefined)"
    by (simp add: validateValue_falsy)
  have r: "resolveValue (layout (Str []) constructor) Undefined = Str ''row''"
    by (simp add: resolveValue_def baseValue_def js_or_def layout_def cacheInput_def
        queryInput_def constructor_def)
  have "validateValue (Str ''row'') = Inr (Str ''row'', Undefined)"
    by (simp add: validate_eval)
  with r have "validateValue (resolveValue (layout (Str []) constructor) Undefined)
      = Inr (Str ''row'', Undefined)"
    by simp
  from updateWithDirection_eq [OF this] v show ?thesis
    by (simp add: buildCSS_eq layout_def cacheInput_def constructor_def)
qed

text \<open>
  C5 as stated fails: for an unset wrap the returned property set still has the key
  \<open>flex-wrap\<close>, with the value \<open>null\<close>.
\<close>

theorem buildCSS_flex_wrap_counterexample:
  "''flex-wrap'' \<in> fst ` set (buildCSS (Str ''row'') Undefined)
   \<and> map_of (buildCSS (Str ''row'') Undefined) ''flex-wrap'' = Some Null"
  by (simp add: buildCSS_def)

text \<open>
  C5, amended. The style builder always includes the key \<open>flex-wrap\<close>; its value is
  \<open>null\<close> whenever wrap is unset (falsy) and is wrap otherwise.
\<close>

theorem buildCSS_flex_wrap:
  "''flex-wrap'' \<in> fst ` set (buildCSS direction wrap)
   \<and> map_of (buildCSS direction wrap) ''flex-wrap''
       = Some (if truthy wrap then wrap else Null)"
  by (simp add: buildCSS_eq)

subsection \<open>Resolving the raw value\<close>

text \<open>
  C3. In \<open>_updateWithDirection\<close>, when a media-query activation exists the raw value
  is its activated input, whatever the argument and the cached input \<open>layout\<close> are.
  When neither the argument nor the cached input is truthy, the value of line 114 is
  \<open>'row'\<close>, and it is the raw value when there is no activation. The update
  normalizes the raw value so resolved, applies the style built from the result and
  announces the direction.
\<close>

theorem updateWithDirection_precedence:
  "(mqActivation st = Some a \<longrightarrow> resolveValue st arg = activatedInput a)
   \<and> (\<not> truthy arg \<and> \<not> truthy (queryInput st ''layout'')
        \<longrightarrow> baseValue st arg = Str ''row'')
   \<and> (mqActivation st = None \<longrightarrow> resolveValue st arg = baseValue st arg)
   \<and> updateWithDirection st arg =
       (case validateValue (resolveValue st arg) of
          Inl e \<Rightarrow> Inl e
        | Inr (d, w) \<Rightarrow>
            Inr (st\<lparr>hostStyles := hostStyles st @ [buildCSS d w],
                    announcer := next_value d (announcer st)\<rparr>))"
  by (simp add: resolveValue_def baseValue_def js_or_def updateWithDirection_def
      applyStyleToElement_def Let_def split: sum.splits prod.splits)

theorem updateWithDirection_precedence_witness:
  "resolveValue
     ((layout (Str ''row'') constructor)
        \<lparr>mqActivation := Some \<lparr>activatedInput = Str ''column''\<rparr>\<rparr>)
     (Str ''row-reverse'') = Str ''column''
   \<and> baseValue constructor Undefined = Str ''row''
   \<and> resolveValue constructor Undefined = Str ''row''"
  using updateWithDirection_precedence
    [of "(layout (Str ''row'') constructor)
           \<lparr>mqActivation := Some \<lparr>activatedInput = Str ''column''\<rparr>\<rparr>"
        "\<lparr>activatedInput = Str ''column''\<rparr>" "Str ''row-reverse''"]
    updateWithDirection_precedence [of constructor "\<lparr>activatedInput = Undefined\<rparr>" Undefined]
  by (simp add: constructor_def queryInput_def)

subsection \<open>The update of the host and of the announcer\<close>

text \<open>
  C6. With the raw input \<open>'column reverse'\<close> in the input \<open>fxLayout\<close> and no active
  breakpoint override, the update applies to the host the style \<open>display: flex\<close>,
  \<open>box-sizing: border-box\<close>, \<open>flex-direction: column\<close>, \<open>flex-wrap: wrap-reverse\<close>,
  and pushes \<open>'column'\<close> into the announcer.
\<close>

theorem column_reverse_scenario:
  assumes "mqActivation st = None"
  shows "\<exists>st'. updateWithDirection (layout (Str ''column reverse'') st) Undefined = Inr st'
     \<and> hostStyles st' = hostStyles st @
         [[(''display'', Str ''flex''),
           (''box-sizing'', Str ''border-box''),
           (''flex-direction'', Str ''column''),
           (''flex-wrap'', Str ''wrap-reverse'')]]
     \<and> pushed (announcer st') = pushed (announcer st) @ [Str ''column'']
     \<and> subscribe (announcer st') = Str ''column''"
proof -
  have "resolveValue (layout (Str ''column reverse'') st) Undefined = Str ''column reverse''"
    using assms
    by (simp add: resolveValue_def baseValue_def js_or_def layout_def cacheInput_def
        queryInput_def)
  moreover have "validateValue (Str ''column reverse'')
      = Inr (Str ''column'', Str ''wrap-reverse'')"
    by (simp add: validate_eval)
  ultimately have "validateValue (resolveValue (layout (Str ''column reverse'') st) Undefined)
      = Inr (Str ''column'', Str ''wrap-reverse'')"
    by simp
  from updateWithDirection_eq [OF this] show ?thesis
    by (simp add: buildCSS_eq layout_def cacheInput_def next_value_def subscribe_def)
qed

theorem column_reverse_scenario_witness:
  "\<exists>st'. updateWithDirection (layout (Str ''column reverse'') constructor) Undefined = Inr st'
     \<and> hostStyles st' =
         [[(''display'', Str ''flex''),
           (''box-sizing'', Str ''border-box''),
           (''flex-direction'', Str ''column''),
           (''flex-wrap'', Str ''wrap-reverse'')]]
     \<and> pushed (announcer st') = [Str ''column'']
     \<and> subscribe (announcer st') = Str ''column''"
  using column_reverse_scenario [of constructor]
  by (simp add: constructor_def newBehaviorSubject_def)

text \<open>
  C7 as stated fails on a raw value that is truthy and not a string: the untyped
  setter of \<open>fxLayout\<close> caches \<open>true\<close>, line 114 resolves it as the raw value, and
  \<open>_validateValue\<close> throws a TypeError on line 152, before the style is applied and
  before the announcer is called. This invocation of the update pushes nothing.
\<close>

theorem updateWithDirection_boolean_counterexample:
  "resolveValue (layout (Boolean True) constructor) Undefined = Boolean True
   \<and> updateWithDirection (layout (Boolean True) constructor) Undefined = Inl TypeError"
  by (simp add: updateWithDirection_def validateValue_def tokens_def resolveValue_def
      baseValue_def js_or_def layout_def cacheInput_def queryInput_def constructor_def)

text \<open>
  C7, amended. An invocation of the update whose raw value is a string or is falsy
  returns and pushes exactly one value into the announcer. Every invocation that
  returns has pushed exactly one value, every value pushed is one of \<open>row\<close>,
  \<open>column\<close>, \<open>row-reverse\<close>, \<open>column-reverse\<close>, and a new subscriber receives the
  value pushed last at once.
\<close>

theorem updateWithDirection_announces:
  "((\<exists>s. resolveValue st arg = Str s) \<or> \<not> truthy (resolveValue st arg)
      \<longrightarrow> (\<exists>d st'. d \<in> set LAYOUT_VALUES
            \<and> updateWithDirection st arg = Inr st'
            \<and> pushed (announcer st') = pushed (announcer st) @ [Str d]
            \<and> subscribe (announcer st') = Str d))
   \<and> (updateWithDirection st arg = Inr st1
      \<longrightarrow> (\<exists>d. d \<in> set LAYOUT_VALUES
            \<and> pushed (announcer st1) = pushed (announcer st) @ [Str d]
            \<and> subscribe (announcer st1) = Str d))"
proof -
  have push: "\<exists>d st'. d \<in> set LAYOUT_VALUES
            \<and> updateWithDirection st arg = Inr st'
            \<and> pushed (announcer st') = pushed (announcer st) @ [Str d]
            \<and> subscribe (announcer st') = Str d"
    if "(\<exists>s. resolveValue st arg = Str s) \<or> \<not> truthy (resolveValue st arg)"
    using updateWithDirection_returns [OF that] .
  have "\<exists>d. d \<in> set LAYOUT_VALUES
            \<and> pushed (announcer st1) = pushed (announcer st) @ [Str d]
            \<and> subscribe (announcer st1) = Str d"
    if ret: "updateWithDirection st arg = Inr st1"
  proof -
    have "resolveValue st arg \<noteq> Boolean True"
      using ret updateWithDirection_TypeError [of st arg] by auto
    then have "(\<exists>s. resolveValue st arg = Str s) \<or> \<not> truthy (resolveValue st arg)"
      using string_or_falsy_cases [of "resolveValue st arg"] by blast
    from push [OF this] ret show ?thesis by auto
  qed
  with push show ?thesis by blast
qed

theorem updateWithDirection_announces_witness:
  "(\<exists>d st'. d \<in> set LAYOUT_VALUES
      \<and> updateWithDirection (layout (Str ''diagonal wrap'') constructor) Undefined = Inr st'
      \<and> pushed (announcer st') = [Str d]
      \<and> subscribe (announcer st') = Str d)
   \<and> updateWithDirection (layout (Str ''diagonal wrap'') constructor) Undefined
       = Inr ((layout (Str ''diagonal wrap'') constructor)
               \<lparr>hostStyles := [buildCSS (Str ''row'') (Str ''wrap'')],
                announcer := \<lparr>current = Str ''row'', pushed = [Str ''row'']\<rparr>\<rparr>)
   \<and> (\<exists>d. d \<in> set LAYOUT_VALUES
      \<and> pushed (announcer ((layout (Str ''diagonal wrap'') constructor)
               \<lparr>hostStyles := [buildCSS (Str ''row'') (Str ''wrap'')],
                announcer := \<lparr>current = Str ''row'', pushed = [Str ''row'']\<rparr>\<rparr>))
          = [Str d])"
proof -
  let ?st = "layout (Str ''diagonal wrap'') constructor"
  let ?st1 = "?st\<lparr>hostStyles := [buildCSS (Str ''row'') (Str ''wrap'')],
                announcer := \<lparr>current = Str ''row'', pushed = [Str ''row'']\<rparr>\<rparr>"
  have r: "resolveValue ?st Undefined = Str ''diagonal wrap''"
    by (simp add: resolveValue_def baseValue_def js_or_def layout_def cacheInput_def
        queryInput_def constructor_def)
  have "validateValue (Str ''diagonal wrap'') = Inr (Str ''row'', Str ''wrap'')"
    by (simp add: validate_eval)
  with r have "validateValue (resolveValue ?st Undefined) = Inr (Str ''row'', Str ''wrap'')"
    by simp
  from updateWithDirection_eq [OF this] have u: "updateWithDirection ?st Undefined = Inr ?st1"
    by (simp add: layout_def cacheInput_def constructor_def newBehaviorSubject_def
        next_value_def)
  have p: "pushed (announcer ?st) = []"
    by (simp add: layout_def cacheInput_def constructor_def newBehaviorSubject_def)
  from updateWithDirection_announces [of ?st Undefined ?st1] r u p show ?thesis
    by simp
qed

subsection \<open>The announcer after construction\<close>

text \<open>
  C10. Immediately after construction, before any recomputation, the announcer holds
  \<open>'row'\<close> and nothing has been pushed yet; a subscriber to \<open>layout$\<close> at that point
  receives \<open>'row'\<close>.
\<close>

theorem constructor_announces_row:
  "subscribe (announcer constructor) = Str ''row''
   \<and> current (announcer constructor) = Str ''row''
   \<and> pushed (announcer constructor) = []
   \<and> hostStyles constructor = []"
  by (simp add: constructor_def newBehaviorSubject_def subscribe_def)

end
